theory Spec2Isabelle
  imports Complex_Main
begin

section \<open>The interaction controller of \<^verbatim>\<open>app/(tabs)/index.tsx\<close>\<close>

text \<open>
  The component \<^verbatim>\<open>App\<close> holds four \<^verbatim>\<open>useState\<close> cells and a handful of handlers.
  Every handler is a piece of straight-line code that runs to completion on the one
  JavaScript thread, up to its next \<^verbatim>\<open>await\<close>. The model therefore has
  \<^item> the four cells as a record,
  \<^item> the calls a handler makes (state setters, \<^verbatim>\<open>Voice.start\<close>, \<^verbatim>\<open>Voice.stop\<close>,
    \<^verbatim>\<open>fetch\<close>, \<^verbatim>\<open>console\<close>) as a log, in the order of the source,
  \<^item> every \<^verbatim>\<open>await\<close> as a suspended task that a later event of the environment
    settles, with any other event in between.
  What the speech engine and the server answer is not code of the component: it is the
  input of the model, an event.
\<close>

subsection \<open>Values that come back from the server\<close>

text \<open>
  \<^verbatim>\<open>response.json()\<close> yields whatever JSON value the body holds; \<^verbatim>\<open>data\<close> has type
  \<^verbatim>\<open>any\<close>, so \<^verbatim>\<open>data.reply\<close> reaches \<^verbatim>\<open>setAiReply\<close> unchecked. A number is the
  rational its double denotes (both zeros are \<open>Finite 0\<close>); a literal too large for a
  double parses to an infinity. The members of an object are kept in the order of the
  text.
\<close>

datatype jsnum = Finite rat | PosInfinity | NegInfinity

datatype json =
    JNull
  | JBool bool
  | JNum jsnum
  | JStr string
  | JArr "json list"
  | JObj "(string \<times> json) list"

text \<open>JavaScript's \<^verbatim>\<open>ToBoolean\<close> on such a value.\<close>

fun truthy :: "json \<Rightarrow> bool" where
  "truthy JNull = False"
| "truthy (JBool b) = b"
| "truthy (JNum n) = (n \<noteq> Finite 0)"
| "truthy (JStr s) = (s \<noteq> [])"
| "truthy (JArr xs) = True"
| "truthy (JObj kvs) = True"

text \<open>
  The read \<^verbatim>\<open>data.reply\<close>: a \<^verbatim>\<open>TypeError\<close> on \<^verbatim>\<open>null\<close>, \<^verbatim>\<open>undefined\<close> (here
  \<open>None\<close>) on a boolean, a number, a string or an array, and the member named
  \<^verbatim>\<open>reply\<close> of an object, the last one when the text repeats the key.
\<close>

fun reply_of :: "json \<Rightarrow> string + json option" where
  "reply_of JNull = Inl ''TypeError''"
| "reply_of (JObj kvs) = Inr (map_of (rev kvs) ''reply'')"
| "reply_of v = Inr None"

text \<open>\<^verbatim>\<open>a || b\<close>, where \<open>None\<close> is \<^verbatim>\<open>undefined\<close>.\<close>

definition js_or :: "json option \<Rightarrow> json \<Rightarrow> json" where
  "js_or a b = (case a of None \<Rightarrow> b | Some v \<Rightarrow> if truthy v then v else b)"

text \<open>
  A response as far as the component uses it: \<^verbatim>\<open>response.json()\<close> either rejects
  (\<open>Inl\<close>) or yields the parsed body. The status is carried to show that nothing reads it.
\<close>

record response =
  status :: nat
  json_result :: "string + json"

datatype fetch_outcome = FetchRejected string | FetchResolved response

subsection \<open>Rendering the reply\<close>

text \<open>
  The component renders \<^verbatim>\<open>{aiReply}\<close> as a child of \<^verbatim>\<open><Text>\<close> when it is truthy, and
  nothing in its place otherwise. React takes a string, a number, a boolean,
  \<^verbatim>\<open>null\<close> and an array of these as a child; an object it refuses with the error
  \<^verbatim>\<open>Objects are not valid as a React child\<close>.
\<close>

fun renderable :: "json \<Rightarrow> bool" where
  "renderable (JObj kvs) = False"
| "renderable (JArr xs) = list_all renderable xs"
| "renderable v = True"

definition renders_ok :: "json \<Rightarrow> bool" where
  "renders_ok v = (if truthy v then renderable v else True)"

definition render_error :: string where
  "render_error = ''Objects are not valid as a React child''"

text \<open>
  Where that error comes out depends on the root the application is registered with,
  which is not decided in this file: it is a parameter of the model. Under a legacy
  root a setter called after an \<^verbatim>\<open>await\<close> renders before it returns, so the error
  is thrown by the call of the setter. Under a concurrent root the render is scheduled
  and the setter returns; what React does with the tree when that render fails is
  outside the model. The cells of the model are the values last given to the setters.
\<close>

datatype react_root = LegacyRoot | ConcurrentRoot

definition setter_throws :: "react_root \<Rightarrow> json \<Rightarrow> bool" where
  "setter_throws r v = (r = LegacyRoot \<and> \<not> renders_ok v)"

subsection \<open>State, calls and suspended tasks\<close>

record interaction_state =
  isLoading :: bool
  isListening :: bool
  aiReply :: json
  recognizedText :: string

record request =
  url :: string
  http_method :: string
  headers :: "(string \<times> string) list"
  body :: json

text \<open>
  The body of the request is \<^verbatim>\<open>JSON.stringify({ message })\<close>; the log keeps the object
  that is serialised.
\<close>

datatype effect =
    SetIsLoading bool
  | SetIsListening bool
  | SetAiReply json
  | SetRecognizedText string
  | VoiceStart string
  | VoiceStop
  | Fetch request
  | ConsoleLog string
  | ConsoleError string string

text \<open>
  A handler suspended at an \<^verbatim>\<open>await\<close>. \<open>AwaitStop\<close> keeps the \<^verbatim>\<open>recognizedText\<close> of
  the render whose \<^verbatim>\<open>handlePress\<close> was called: that closure is what the handler reads
  when it goes on. \<open>AwaitFetch\<close> stands for the two awaits of \<^verbatim>\<open>sendToServer\<close>
  (\<^verbatim>\<open>fetch\<close>, then \<^verbatim>\<open>response.json()\<close>), between which the component writes nothing.
\<close>

datatype task = AwaitStart | AwaitStop string | AwaitFetch

record config =
  root_kind :: react_root
  st :: interaction_state
  pending :: "task list"
  trace :: "effect list"

definition emit :: "effect \<Rightarrow> config \<Rightarrow> config" where
  "emit e c = c\<lparr>trace := trace c @ [e]\<rparr>"

definition suspend :: "task \<Rightarrow> config \<Rightarrow> config" where
  "suspend t c = c\<lparr>pending := pending c @ [t]\<rparr>"

definition setIsLoading :: "bool \<Rightarrow> config \<Rightarrow> config" where
  "setIsLoading b c = emit (SetIsLoading b) (c\<lparr>st := (st c)\<lparr>isLoading := b\<rparr>\<rparr>)"

definition setIsListening :: "bool \<Rightarrow> config \<Rightarrow> config" where
  "setIsListening b c = emit (SetIsListening b) (c\<lparr>st := (st c)\<lparr>isListening := b\<rparr>\<rparr>)"

definition setAiReply :: "json \<Rightarrow> config \<Rightarrow> config" where
  "setAiReply v c = emit (SetAiReply v) (c\<lparr>st := (st c)\<lparr>aiReply := v\<rparr>\<rparr>)"

definition setRecognizedText :: "string \<Rightarrow> config \<Rightarrow> config" where
  "setRecognizedText s c = emit (SetRecognizedText s) (c\<lparr>st := (st c)\<lparr>recognizedText := s\<rparr>\<rparr>)"

subsection \<open>Constants of the source\<close>

definition SERVER_IP :: string where
  "SERVER_IP = ''192.168.57.168''"

definition SERVER_URL :: string where
  "SERVER_URL = ''http://'' @ SERVER_IP @ '':3000/interact''"

definition fallback_reply :: string where
  "fallback_reply = ''Sorry, I couldn't get a response.''"

definition connectivity_error :: string where
  "connectivity_error = ''I'm having trouble connecting to my brain. Please check the server.''"

subsection \<open>The voice listeners (\<^verbatim>\<open>useEffect\<close>)\<close>

text \<open>\<^verbatim>\<open>e.value\<close> is optional in \<^verbatim>\<open>SpeechResultsEvent\<close>: \<open>None\<close> is \<^verbatim>\<open>undefined\<close>.\<close>

definition onSpeechResults :: "string list option \<Rightarrow> config \<Rightarrow> config" where
  "onSpeechResults v c =
     (case v of
        None \<Rightarrow> c
      | Some [] \<Rightarrow> c
      | Some (x # xs) \<Rightarrow> setRecognizedText x c)"

definition onSpeechEnd :: "config \<Rightarrow> config" where
  "onSpeechEnd c = emit (ConsoleLog ''Speech listening has ended.'') (setIsListening False c)"

definition onSpeechError :: "string \<Rightarrow> config \<Rightarrow> config" where
  "onSpeechError err c = setIsListening False (emit (ConsoleError ''Speech Error:'' err) c)"

subsection \<open>Starting and stopping\<close>

text \<open>Each function is the code up to its \<^verbatim>\<open>await\<close>; \<open>_settled\<close> is the code after it.
  A settlement is \<open>None\<close> when the promise resolves and \<open>Some reason\<close> when it rejects. A
  call that throws at once inside \<^verbatim>\<open>try\<close> reaches the same \<^verbatim>\<open>catch\<close>: it is the
  rejection that is settled with no event in between.\<close>

definition startListening :: "config \<Rightarrow> config" where
  "startListening c =
     emit (VoiceStart ''en-US'')
       (setIsListening True (setAiReply (JStr '''') (setRecognizedText '''' c)))"

definition startListening_settled :: "string option \<Rightarrow> config \<Rightarrow> config" where
  "startListening_settled r c =
     (case r of
        None \<Rightarrow> c
      | Some e \<Rightarrow> setIsListening False (emit (ConsoleError ''Failed to start listening:'' e) c))"

definition stopListening :: "config \<Rightarrow> config" where
  "stopListening c = emit VoiceStop c"

definition stopListening_settled :: "string option \<Rightarrow> config \<Rightarrow> config" where
  "stopListening_settled r c =
     (case r of
        None \<Rightarrow> c
      | Some e \<Rightarrow> emit (ConsoleError ''Failed to stop listening:'' e) c)"

subsection \<open>Sending\<close>

definition sendToServer :: "string \<Rightarrow> config \<Rightarrow> config" where
  "sendToServer message c =
     suspend AwaitFetch
       (emit (Fetch \<lparr>url = SERVER_URL, http_method = ''POST'',
                     headers = [(''Content-Type'', ''application/json'')],
                     body = JObj [(''message'', JStr message)]\<rparr>)
         (setAiReply (JStr '''')
           (setIsLoading True
             (emit (ConsoleLog (''Sending this to server: '' @ [CHR 0x22] @ message @ [CHR 0x22]))
                c))))"

text \<open>
  The \<^verbatim>\<open>try\<close> block: the configuration it leaves, and what it throws if it throws.
  \<^verbatim>\<open>fetch\<close>, \<^verbatim>\<open>response.json()\<close> and the read \<^verbatim>\<open>data.reply\<close> throw before any
  call is made. The last statement, \<^verbatim>\<open>setAiReply(data.reply || "...")\<close>, is inside
  the block too: the call is made, and under a legacy root it throws when the value
  cannot be rendered.
\<close>

definition sendToServer_try :: "fetch_outcome \<Rightarrow> config \<Rightarrow> config \<times> string option" where
  "sendToServer_try out c =
     (case out of
        FetchRejected e \<Rightarrow> (c, Some e)
      | FetchResolved resp \<Rightarrow>
          (case json_result resp of
             Inl e \<Rightarrow> (c, Some e)
           | Inr data \<Rightarrow>
               (case reply_of data of
                  Inl e \<Rightarrow> (c, Some e)
                | Inr r \<Rightarrow>
                    (setAiReply (js_or r (JStr fallback_reply)) c,
                     if setter_throws (root_kind c) (js_or r (JStr fallback_reply))
                     then Some render_error else None))))"

text \<open>
  \<^verbatim>\<open>try\<close>, \<^verbatim>\<open>catch\<close> and \<^verbatim>\<open>finally\<close> once the request has settled. The setter
  in \<^verbatim>\<open>catch\<close> is given a string, which renders under either root.
\<close>

definition sendToServer_settled :: "fetch_outcome \<Rightarrow> config \<Rightarrow> config" where
  "sendToServer_settled out c =
     setIsLoading False
       (case sendToServer_try out c of
          (c', None) \<Rightarrow> c'
        | (c', Some e) \<Rightarrow>
            setAiReply (JStr connectivity_error) (emit (ConsoleError ''Network Error:'' e) c'))"

subsection \<open>The press handler\<close>

text \<open>
  \<^verbatim>\<open>handlePress\<close> reads the cells of the render it belongs to. A press is a turn of
  the event loop of its own, so the render it meets is that of the cells as last
  written: the handler reads the current state. Unmounting is outside the model.
\<close>

definition handlePress :: "config \<Rightarrow> config" where
  "handlePress c =
     (if isLoading (st c) then c
      else if isListening (st c) then suspend (AwaitStop (recognizedText (st c))) (stopListening c)
      else suspend AwaitStart (startListening c))"

text \<open>What \<^verbatim>\<open>handlePress\<close> does when the call it awaits has settled. The text tested
  and sent is the one of the closure.\<close>

fun handlePress_settled :: "task \<Rightarrow> string option \<Rightarrow> config \<Rightarrow> config" where
  "handlePress_settled AwaitStart r c = startListening_settled r c"
| "handlePress_settled (AwaitStop text) r c =
     (if text \<noteq> [] then sendToServer text (stopListening_settled r c)
      else stopListening_settled r c)"
| "handlePress_settled AwaitFetch r c = c"

subsection \<open>Events\<close>

text \<open>
  One event is one turn of the event loop: a press, a callback of the speech engine, or
  the settlement of a suspended task, named by its place in the list of those
  outstanding. A settlement that names no task of its kind does nothing.
\<close>

datatype event =
    Press
  | SpeechResults "string list option"
  | SpeechEnd
  | SpeechError string
  | VoiceSettled nat "string option"
  | FetchSettled nat fetch_outcome

definition remove_nth :: "nat \<Rightarrow> 'a list \<Rightarrow> 'a list" where
  "remove_nth i xs = take i xs @ drop (Suc i) xs"

definition resume :: "nat \<Rightarrow> config \<Rightarrow> config" where
  "resume i c = c\<lparr>pending := remove_nth i (pending c)\<rparr>"

fun step :: "config \<Rightarrow> event \<Rightarrow> config" where
  "step c Press = handlePress c"
| "step c (SpeechResults v) = onSpeechResults v c"
| "step c SpeechEnd = onSpeechEnd c"
| "step c (SpeechError err) = onSpeechError err c"
| "step c (VoiceSettled i r) =
     (if i < length (pending c) \<and> pending c ! i \<noteq> AwaitFetch
      then handlePress_settled (pending c ! i) r (resume i c)
      else c)"
| "step c (FetchSettled i out) =
     (if i < length (pending c) \<and> pending c ! i = AwaitFetch
      then sendToServer_settled out (resume i c)
      else c)"

definition run :: "config \<Rightarrow> event list \<Rightarrow> config" where
  "run c es = foldl step c es"

text \<open>The component as mounted under a root of kind \<open>r\<close>: the initial values of the four
  \<^verbatim>\<open>useState\<close> calls.\<close>

definition initial :: "react_root \<Rightarrow> config" where
  "initial r =
     \<lparr>root_kind = r,
      st = \<lparr>isLoading = False, isListening = False, aiReply = JStr '''', recognizedText = ''''\<rparr>,
      pending = [], trace = []\<rparr>"

text \<open>The requests in a log, and the number of requests not yet settled.\<close>

fun reply_calls :: "effect list \<Rightarrow> request list" where
  "reply_calls [] = []"
| "reply_calls (Fetch r # es) = r # reply_calls es"
| "reply_calls (e # es) = reply_calls es"


definition outstanding :: "config \<Rightarrow> nat" where
  "outstanding c = count_list (pending c) AwaitFetch"

text \<open>A run in which no two requests are ever outstanding together.\<close>

fun no_overlap :: "config \<Rightarrow> event list \<Rightarrow> bool" where
  "no_overlap c [] = (outstanding c \<le> 1)"
| "no_overlap c (e # es) = (outstanding c \<le> 1 \<and> no_overlap (step c e) es)"

section \<open>Properties\<close>

lemmas setters =
  emit_def suspend_def setIsLoading_def setIsListening_def setAiReply_def setRecognizedText_def

lemmas handlers =
  onSpeechResults_def onSpeechEnd_def onSpeechError_def startListening_def
  startListening_settled_def stopListening_def stopListening_settled_def sendToServer_def
  sendToServer_try_def sendToServer_settled_def handlePress_def resume_def remove_nth_def
  js_or_def setter_throws_def renders_ok_def

lemma run_Nil: "run c [] = c"
  by (simp add: run_def)

lemma run_Cons: "run c (e # es) = run (step c e) es"
  by (simp add: run_def)

text \<open>
  C1. While \<open>isLoading\<close> is true a press does nothing: after any number of presses the
  four cells, the suspended tasks and the log of calls are what they were, so no call
  to the speech engine or to the server has been made.
\<close>

theorem press_while_loading_noop:
  "isLoading (st c) \<Longrightarrow> run c (replicate n Press) = c"
  by (induction n) (simp_all add: run_Nil run_Cons handlePress_def)

theorem press_while_loading_noop_witness:
  "isLoading (st (run (initial LegacyRoot) [Press, VoiceSettled 0 None, SpeechResults (Some [''hi'']), Press,
                               VoiceSettled 0 None]))
   \<and> run (run (initial LegacyRoot) [Press, VoiceSettled 0 None, SpeechResults (Some [''hi'']), Press,
                        VoiceSettled 0 None])
          (replicate 3 Press)
       = run (initial LegacyRoot) [Press, VoiceSettled 0 None, SpeechResults (Some [''hi'']), Press,
                       VoiceSettled 0 None]"
proof -
  have h: "isLoading (st (run (initial LegacyRoot) [Press, VoiceSettled 0 None, SpeechResults (Some [''hi'']),
                                        Press, VoiceSettled 0 None]))"
    by (simp add: run_def initial_def setters handlers)
  from press_while_loading_noop [OF h, of 3] h show ?thesis by simp
qed

subsection \<open>Stopping\<close>

text \<open>
  C2. The claim is that a press while listening leaves \<open>isListening\<close> false even when
  \<^verbatim>\<open>Voice.stop()\<close> rejects. The run below starts a session, presses again and lets
  \<^verbatim>\<open>stop\<close> reject with no callback of the engine: the rejection is caught and logged,
  and \<open>isListening\<close> is still true. \<^verbatim>\<open>stopListening\<close> never writes the cell; only
  \<^verbatim>\<open>onSpeechEnd\<close> and \<^verbatim>\<open>onSpeechError\<close> do.
\<close>

theorem stop_rejected_leaves_listening:
  "run (initial LegacyRoot) [Press, VoiceSettled 0 None, Press, VoiceSettled 0 (Some ''boom'')] =
     \<lparr>root_kind = LegacyRoot,
      st = \<lparr>isLoading = False, isListening = True, aiReply = JStr '''', recognizedText = ''''\<rparr>,
      pending = [],
      trace = [SetRecognizedText '''', SetAiReply (JStr ''''), SetIsListening True,
               VoiceStart ''en-US'', VoiceStop,
               ConsoleError ''Failed to stop listening:'' ''boom'']\<rparr>"
  by (simp add: run_def initial_def setters handlers)

lemma reply_calls_append: "reply_calls (xs @ ys) = reply_calls xs @ reply_calls ys"
  by (induction xs rule: reply_calls.induct) simp_all

text \<open>
  C3, as the claim states it, fails: a press while listening with an empty
  \<open>recognizedText\<close> makes no request, but it does not clear \<open>aiReply\<close>. In the run below
  the first session is stopped with the text \<open>hi\<close>, the engine reports the end, and a new
  session is started before \<^verbatim>\<open>stop\<close> has settled; the reply to \<open>hi\<close> then arrives
  during the second session. Stopping that session, which heard nothing, makes no
  request and ends idle with the old reply on display.
\<close>

theorem empty_stop_keeps_old_reply:
  "isListening (st (run (initial LegacyRoot)
       [Press, VoiceSettled 0 None, SpeechResults (Some [''hi'']), Press, SpeechEnd, Press,
        VoiceSettled 0 None, VoiceSettled 0 None,
        FetchSettled 0 (FetchResolved \<lparr>status = 200,
                                       json_result = Inr (JObj [(''reply'', JStr ''yo'')])\<rparr>)]))
   \<and> \<not> isLoading (st (run (initial LegacyRoot)
       [Press, VoiceSettled 0 None, SpeechResults (Some [''hi'']), Press, SpeechEnd, Press,
        VoiceSettled 0 None, VoiceSettled 0 None,
        FetchSettled 0 (FetchResolved \<lparr>status = 200,
                                       json_result = Inr (JObj [(''reply'', JStr ''yo'')])\<rparr>)]))
   \<and> recognizedText (st (run (initial LegacyRoot)
       [Press, VoiceSettled 0 None, SpeechResults (Some [''hi'']), Press, SpeechEnd, Press,
        VoiceSettled 0 None, VoiceSettled 0 None,
        FetchSettled 0 (FetchResolved \<lparr>status = 200,
                                       json_result = Inr (JObj [(''reply'', JStr ''yo'')])\<rparr>)])) = ''''
   \<and> reply_calls (trace (run (initial LegacyRoot)
       [Press, VoiceSettled 0 None, SpeechResults (Some [''hi'']), Press, SpeechEnd, Press,
        VoiceSettled 0 None, VoiceSettled 0 None,
        FetchSettled 0 (FetchResolved \<lparr>status = 200,
                                       json_result = Inr (JObj [(''reply'', JStr ''yo'')])\<rparr>),
        Press, SpeechEnd, VoiceSettled 0 None]))
       = reply_calls (trace (run (initial LegacyRoot)
       [Press, VoiceSettled 0 None, SpeechResults (Some [''hi'']), Press, SpeechEnd, Press,
        VoiceSettled 0 None, VoiceSettled 0 None,
        FetchSettled 0 (FetchResolved \<lparr>status = 200,
                                       json_result = Inr (JObj [(''reply'', JStr ''yo'')])\<rparr>)]))
   \<and> st (run (initial LegacyRoot)
       [Press, VoiceSettled 0 None, SpeechResults (Some [''hi'']), Press, SpeechEnd, Press,
        VoiceSettled 0 None, VoiceSettled 0 None,
        FetchSettled 0 (FetchResolved \<lparr>status = 200,
                                       json_result = Inr (JObj [(''reply'', JStr ''yo'')])\<rparr>),
        Press, SpeechEnd, VoiceSettled 0 None])
       = \<lparr>isLoading = False, isListening = False, aiReply = JStr ''yo'', recognizedText = ''''\<rparr>
   \<and> JStr ''yo'' \<noteq> JStr ''''"
  by (simp add: run_def initial_def setters handlers)

text \<open>
  C3, amended. A press while listening (and not loading) calls \<^verbatim>\<open>Voice.stop()\<close> once,
  writes no cell and suspends with the \<open>recognizedText\<close> it was called with. When that
  \<^verbatim>\<open>stop\<close> settles, resolved or rejected, in whatever configuration \<open>d\<close> the
  component then is: if the text kept is not empty, exactly one request is made, to
  \<open>SERVER_URL\<close>, with exactly that text as \<open>message\<close>; if it is empty, no request is made
  and no cell is written, so \<open>isLoading\<close>, \<open>recognizedText\<close> and \<open>aiReply\<close> stay as they
  are. Nothing is said about \<open>isListening\<close>.
\<close>

theorem press_while_listening_sends_captured_text:
  assumes "isListening (st c)" and "\<not> isLoading (st c)"
    and "i < length (pending d)" and "pending d ! i = AwaitStop (recognizedText (st c))"
  shows "step c Press =
           c\<lparr>pending := pending c @ [AwaitStop (recognizedText (st c))],
             trace := trace c @ [VoiceStop]\<rparr>
    \<and> reply_calls (trace (step d (VoiceSettled i r))) =
        reply_calls (trace d) @
          (if recognizedText (st c) = [] then []
           else [\<lparr>url = SERVER_URL, http_method = ''POST'',
                  headers = [(''Content-Type'', ''application/json'')],
                  body = JObj [(''message'', JStr (recognizedText (st c)))]\<rparr>])
    \<and> (recognizedText (st c) = [] \<longrightarrow> st (step d (VoiceSettled i r)) = st d)"
  using assms by (cases r) (simp_all add: setters handlers reply_calls_append)

theorem press_while_listening_sends_captured_text_witness:
  "isListening (st (run (initial LegacyRoot) [Press, VoiceSettled 0 None, SpeechResults (Some [''hi''])]))
   \<and> \<not> isLoading (st (run (initial LegacyRoot) [Press, VoiceSettled 0 None, SpeechResults (Some [''hi''])]))
   \<and> pending (run (initial LegacyRoot) [Press, VoiceSettled 0 None, SpeechResults (Some [''hi'']), Press])
       = [AwaitStop ''hi'']
   \<and> reply_calls (trace (run (initial LegacyRoot) [Press, VoiceSettled 0 None, SpeechResults (Some [''hi'']),
                                        Press, VoiceSettled 0 (Some ''boom'')]))
       = [\<lparr>url = ''http://192.168.57.168:3000/interact'', http_method = ''POST'',
           headers = [(''Content-Type'', ''application/json'')],
           body = JObj [(''message'', JStr ''hi'')]\<rparr>]"
proof -
  let ?c = "run (initial LegacyRoot) [Press, VoiceSettled 0 None, SpeechResults (Some [''hi''])]"
  let ?d = "run (initial LegacyRoot) [Press, VoiceSettled 0 None, SpeechResults (Some [''hi'']), Press]"
  have h1: "isListening (st ?c)" and h2: "\<not> isLoading (st ?c)"
    and h3: "0 < length (pending ?d)" and h4: "pending ?d ! 0 = AwaitStop (recognizedText (st ?c))"
    by (simp_all add: run_def initial_def setters handlers)
  have t: "recognizedText (st ?c) = ''hi''" and p: "pending ?d = [AwaitStop ''hi'']"
    and n: "reply_calls (trace ?d) = []"
    and s: "run (initial LegacyRoot) [Press, VoiceSettled 0 None, SpeechResults (Some [''hi'']), Press,
                         VoiceSettled 0 (Some ''boom'')] = step ?d (VoiceSettled 0 (Some ''boom''))"
    by (simp_all add: run_def initial_def setters handlers)
  from press_while_listening_sends_captured_text [OF h1 h2 h3 h4, of "Some ''boom''"] h1 h2 t p n s
  show ?thesis by (simp add: SERVER_URL_def SERVER_IP_def)
qed

subsection \<open>The loading flag\<close>

lemma count_remove_nth:
  "i < length xs \<Longrightarrow>
   count_list (remove_nth i xs) a + (if xs ! i = a then 1 else 0) = count_list xs a"
proof -
  assume "i < length xs"
  then have "xs = take i xs @ xs ! i # drop (Suc i) xs" by (rule id_take_nth_drop)
  then have "count_list xs a = count_list (take i xs @ xs ! i # drop (Suc i) xs) a" by simp
  then show ?thesis by (simp add: remove_nth_def)
qed

lemma outstanding_resume:
  "i < length (pending c) \<Longrightarrow>
   outstanding (resume i c) + (if pending c ! i = AwaitFetch then 1 else 0) = outstanding c"
  using count_remove_nth [of i "pending c" AwaitFetch] by (simp add: outstanding_def resume_def)

lemma st_resume: "st (resume i c) = st c"
  by (simp add: resume_def)

lemma handlePress_loading:
  "isLoading (st (handlePress c)) = isLoading (st c)
   \<and> outstanding (handlePress c) = outstanding c"
  by (simp add: outstanding_def setters handlers)

lemma speech_loading:
  "isLoading (st (onSpeechResults v c)) = isLoading (st c)
   \<and> outstanding (onSpeechResults v c) = outstanding c"
  "isLoading (st (onSpeechEnd c)) = isLoading (st c) \<and> outstanding (onSpeechEnd c) = outstanding c"
  "isLoading (st (onSpeechError err c)) = isLoading (st c)
   \<and> outstanding (onSpeechError err c) = outstanding c"
  by (simp_all add: outstanding_def setters handlers split: option.splits list.splits)

lemma settled_loading:
  "t \<noteq> AwaitFetch \<Longrightarrow>
   isLoading (st (handlePress_settled t r c))
     = (isLoading (st c) \<or> (\<exists>m. t = AwaitStop m \<and> m \<noteq> []))
   \<and> outstanding (handlePress_settled t r c)
     = outstanding c + (if (\<exists>m. t = AwaitStop m \<and> m \<noteq> []) then 1 else 0)"
  by (cases t; cases r) (simp_all add: outstanding_def setters handlers)

lemma sent_loading:
  "\<not> isLoading (st (sendToServer_settled out c))
   \<and> outstanding (sendToServer_settled out c) = outstanding c"
  by (simp add: outstanding_def setters handlers
      split: sum.splits fetch_outcome.splits option.splits)

lemma step_loading_implies_outstanding:
  assumes "isLoading (st c) \<longrightarrow> 0 < outstanding c"
  shows "isLoading (st (step c e)) \<longrightarrow> 0 < outstanding (step c e)"
proof (cases e)
  case (VoiceSettled i r)
  show ?thesis
  proof (cases "i < length (pending c) \<and> pending c ! i \<noteq> AwaitFetch")
    case True
    with assms outstanding_resume [of i c] settled_loading [of "pending c ! i" r "resume i c"]
    show ?thesis by (simp add: VoiceSettled st_resume)
  next
    case False
    then have "step c e = c" unfolding VoiceSettled step.simps by (rule if_not_P)
    with assms show ?thesis by simp
  qed
next
  case (FetchSettled i out)
  with assms show ?thesis by (simp add: sent_loading)
qed (use assms in \<open>simp_all add: handlePress_loading speech_loading\<close>)

lemma step_loading_iff:
  assumes "isLoading (st c) = (outstanding c = 1)"
    and "outstanding c \<le> 1" and "outstanding (step c e) \<le> 1"
  shows "isLoading (st (step c e)) = (outstanding (step c e) = 1)"
proof (cases e)
  case (VoiceSettled i r)
  show ?thesis
  proof (cases "i < length (pending c) \<and> pending c ! i \<noteq> AwaitFetch")
    case True
    with assms outstanding_resume [of i c] settled_loading [of "pending c ! i" r "resume i c"]
    show ?thesis by (auto simp add: VoiceSettled st_resume)
  next
    case False
    then have "step c e = c" unfolding VoiceSettled step.simps by (rule if_not_P)
    with assms show ?thesis by simp
  qed
next
  case (FetchSettled i out)
  show ?thesis
  proof (cases "i < length (pending c) \<and> pending c ! i = AwaitFetch")
    case True
    with assms outstanding_resume [of i c] sent_loading [of out "resume i c"]
    show ?thesis by (simp add: FetchSettled)
  next
    case False
    then have "step c e = c" unfolding FetchSettled step.simps by (rule if_not_P)
    with assms show ?thesis by simp
  qed
qed (use assms in \<open>simp_all add: handlePress_loading speech_loading\<close>)

lemma run_loading_implies_outstanding:
  "(isLoading (st c) \<longrightarrow> 0 < outstanding c) \<Longrightarrow>
   isLoading (st (run c es)) \<longrightarrow> 0 < outstanding (run c es)"
proof (induction es arbitrary: c)
  case Nil
  then show ?case by (simp add: run_Nil)
next
  case (Cons e es)
  from Cons.prems have "isLoading (st (step c e)) \<longrightarrow> 0 < outstanding (step c e)"
    by (rule step_loading_implies_outstanding)
  then show ?case unfolding run_Cons by (rule Cons.IH)
qed

lemma run_loading_iff:
  "isLoading (st c) = (outstanding c = 1) \<Longrightarrow> no_overlap c es \<Longrightarrow>
   isLoading (st (run c es)) = (outstanding (run c es) = 1)"
proof (induction es arbitrary: c)
  case Nil
  then show ?case by (simp add: run_Nil)
next
  case (Cons e es)
  from Cons.prems(2) have a: "outstanding c \<le> 1" and b: "no_overlap (step c e) es"
    by simp_all
  from b have "outstanding (step c e) \<le> 1" by (cases es) simp_all
  with Cons.prems(1) a have "isLoading (st (step c e)) = (outstanding (step c e) = 1)"
    by (rule step_loading_iff)
  then show ?case unfolding run_Cons using b by (rule Cons.IH)
qed

text \<open>
  C4, as the claim states it, fails: the press guard reads \<open>isLoading\<close>, which is still
  false while \<^verbatim>\<open>Voice.stop()\<close> is awaited, so two presses while listening both go on
  to \<^verbatim>\<open>sendToServer\<close>. In the run below two requests are made; when the first is
  settled its \<^verbatim>\<open>finally\<close> sets \<open>isLoading\<close> to false while the second is still
  outstanding.
\<close>

theorem isLoading_false_with_request_outstanding:
  "\<not> isLoading (st (run (initial LegacyRoot)
       [Press, VoiceSettled 0 None, SpeechResults (Some [''hi'']), Press, Press,
        VoiceSettled 0 None, VoiceSettled 0 None, FetchSettled 0 (FetchRejected ''timeout'')]))
   \<and> outstanding (run (initial LegacyRoot)
       [Press, VoiceSettled 0 None, SpeechResults (Some [''hi'']), Press, Press,
        VoiceSettled 0 None, VoiceSettled 0 None, FetchSettled 0 (FetchRejected ''timeout'')]) = 1
   \<and> length (reply_calls (trace (run (initial LegacyRoot)
       [Press, VoiceSettled 0 None, SpeechResults (Some [''hi'']), Press, Press,
        VoiceSettled 0 None, VoiceSettled 0 None, FetchSettled 0 (FetchRejected ''timeout'')]))) = 2"
  by (simp add: run_def initial_def outstanding_def setters handlers)

text \<open>
  C4, amended. \<^verbatim>\<open>sendToServer\<close> sets \<open>isLoading\<close> to true as it makes its request, and
  the settlement of a request sets it to false whatever the outcome (the \<^verbatim>\<open>finally\<close>
  block): resolved, rejected, a body that does not parse, or a throw inside \<^verbatim>\<open>try\<close>.
  From the mounted component, after any events, \<open>isLoading\<close> is true only while some
  request is outstanding; and in every run in which no two requests are outstanding
  together, \<open>isLoading\<close> is true exactly while a request is outstanding.
\<close>

theorem isLoading_tracks_requests:
  "(isLoading (st (run (initial r) es)) \<longrightarrow> 0 < outstanding (run (initial r) es))
   \<and> (no_overlap (initial r) es \<longrightarrow>
        isLoading (st (run (initial r) es)) = (outstanding (run (initial r) es) = 1))
   \<and> isLoading (st (sendToServer message c))
   \<and> outstanding (sendToServer message c) = outstanding c + 1
   \<and> \<not> isLoading (st (sendToServer_settled out c))"
proof -
  have i: "isLoading (st (initial r)) \<longrightarrow> 0 < outstanding (initial r)"
    and j: "isLoading (st (initial r)) = (outstanding (initial r) = 1)"
    by (simp_all add: initial_def outstanding_def)
  show ?thesis
    using run_loading_implies_outstanding [OF i, of es] run_loading_iff [OF j, of es]
    by (simp add: sent_loading) (simp add: outstanding_def setters handlers)
qed

theorem isLoading_tracks_requests_witness:
  "no_overlap (initial LegacyRoot) [Press, VoiceSettled 0 None, SpeechResults (Some [''hi'']), Press,
                       VoiceSettled 0 None]
   \<and> isLoading (st (run (initial LegacyRoot) [Press, VoiceSettled 0 None, SpeechResults (Some [''hi'']), Press,
                                  VoiceSettled 0 None]))
   \<and> outstanding (run (initial LegacyRoot) [Press, VoiceSettled 0 None, SpeechResults (Some [''hi'']), Press,
                                VoiceSettled 0 None]) = 1
   \<and> \<not> isLoading (st (run (initial LegacyRoot) [Press, VoiceSettled 0 None, SpeechResults (Some [''hi'']), Press,
                                    VoiceSettled 0 None, FetchSettled 0 (FetchRejected ''timeout'')]))"
proof -
  let ?es = "[Press, VoiceSettled 0 None, SpeechResults (Some [''hi'']), Press, VoiceSettled 0 None]"
  have h: "no_overlap (initial LegacyRoot) ?es" and l: "isLoading (st (run (initial LegacyRoot) ?es))"
    and s: "run (initial LegacyRoot) [Press, VoiceSettled 0 None, SpeechResults (Some [''hi'']), Press,
                         VoiceSettled 0 None, FetchSettled 0 (FetchRejected ''timeout'')]
            = sendToServer_settled (FetchRejected ''timeout'') (resume 0 (run (initial LegacyRoot) ?es))"
    by (simp_all add: run_def initial_def outstanding_def setters handlers)
  from isLoading_tracks_requests
         [where r = LegacyRoot and es = ?es and c = "resume 0 (run (initial LegacyRoot) ?es)"
            and out = "FetchRejected ''timeout''"]
       h l s
  show ?thesis by simp
qed

subsection \<open>Starting\<close>

text \<open>
  C6, as the claim states it, fails when \<^verbatim>\<open>Voice.start\<close> fails after the engine has
  delivered a result: the \<^verbatim>\<open>catch\<close> of \<^verbatim>\<open>startListening\<close> sets \<open>isListening\<close> to
  false and leaves \<open>recognizedText\<close> alone, so the transcript \<open>hi\<close> is on display once
  the component no longer listens.
\<close>

theorem late_start_failure_keeps_transcript:
  "st (run (initial LegacyRoot)
         [Press, SpeechResults (Some [''hi'']), VoiceSettled 0 (Some ''denied'')])
     = \<lparr>isLoading = False, isListening = False, aiReply = JStr '''', recognizedText = ''hi''\<rparr>
   \<and> ''hi'' \<noteq> ''''"
  by (simp add: run_def initial_def setters handlers)

text \<open>
  C6, amended. A press while idle (neither loading nor listening) calls, in this order,
  \<^verbatim>\<open>setRecognizedText("")\<close>, \<^verbatim>\<open>setAiReply("")\<close>, \<^verbatim>\<open>setIsListening(true)\<close> and only
  then \<^verbatim>\<open>Voice.start("en-US")\<close>, and suspends on it. If \<^verbatim>\<open>start\<close> fails with no
  other event in between, the component is idle again, with \<open>isListening\<close> false and
  both texts empty. If it fails later, in whatever configuration \<open>d\<close> the component
  then is, the failure is logged and \<open>isListening\<close> is set to false; no other cell is
  written, so \<open>isLoading\<close>, \<open>aiReply\<close> and a transcript delivered in between stay as
  they are.
\<close>

theorem press_while_idle_starts_session:
  assumes "\<not> isLoading (st c)" and "\<not> isListening (st c)"
  shows "step c Press =
           suspend AwaitStart (emit (VoiceStart ''en-US'')
             (c\<lparr>st := \<lparr>isLoading = False, isListening = True, aiReply = JStr '''',
                       recognizedText = ''''\<rparr>,
                trace := trace c @ [SetRecognizedText '''', SetAiReply (JStr ''''),
                                    SetIsListening True]\<rparr>))
       \<and> st (run c [Press, VoiceSettled (length (pending c)) (Some e)]) =
           \<lparr>isLoading = False, isListening = False, aiReply = JStr '''', recognizedText = ''''\<rparr>
       \<and> (i < length (pending d) \<and> pending d ! i = AwaitStart \<longrightarrow>
            step d (VoiceSettled i (Some e)) =
              d\<lparr>st := (st d)\<lparr>isListening := False\<rparr>, pending := remove_nth i (pending d),
                trace := trace d @ [ConsoleError ''Failed to start listening:'' e,
                                    SetIsListening False]\<rparr>)"
  using assms by (simp add: run_def setters handlers)

theorem press_while_idle_starts_session_witness:
  "step \<lparr>root_kind = LegacyRoot,
          st = \<lparr>isLoading = False, isListening = False, aiReply = JStr ''yo'',
                recognizedText = ''hi''\<rparr>,
          pending = [], trace = []\<rparr> Press
     = \<lparr>root_kind = LegacyRoot,
        st = \<lparr>isLoading = False, isListening = True, aiReply = JStr '''', recognizedText = ''''\<rparr>,
        pending = [AwaitStart],
        trace = [SetRecognizedText '''', SetAiReply (JStr ''''), SetIsListening True,
                 VoiceStart ''en-US'']\<rparr>
   \<and> st (run \<lparr>root_kind = LegacyRoot,
               st = \<lparr>isLoading = False, isListening = False, aiReply = JStr ''yo'',
                     recognizedText = ''hi''\<rparr>,
               pending = [], trace = []\<rparr>
              [Press, VoiceSettled 0 (Some ''denied'')])
     = \<lparr>isLoading = False, isListening = False, aiReply = JStr '''', recognizedText = ''''\<rparr>
   \<and> step \<lparr>root_kind = LegacyRoot,
            st = \<lparr>isLoading = True, isListening = True, aiReply = JStr '''',
                  recognizedText = ''hello''\<rparr>,
            pending = [AwaitFetch, AwaitStart], trace = []\<rparr>
          (VoiceSettled 1 (Some ''denied''))
     = \<lparr>root_kind = LegacyRoot,
        st = \<lparr>isLoading = True, isListening = False, aiReply = JStr '''',
              recognizedText = ''hello''\<rparr>,
        pending = [AwaitFetch],
        trace = [ConsoleError ''Failed to start listening:'' ''denied'', SetIsListening False]\<rparr>"
proof -
  let ?c = "\<lparr>root_kind = LegacyRoot,
             st = \<lparr>isLoading = False, isListening = False, aiReply = JStr ''yo'',
                   recognizedText = ''hi''\<rparr>,
             pending = [], trace = []\<rparr>"
  let ?d = "\<lparr>root_kind = LegacyRoot,
             st = \<lparr>isLoading = True, isListening = True, aiReply = JStr '''',
                   recognizedText = ''hello''\<rparr>,
             pending = [AwaitFetch, AwaitStart], trace = []\<rparr>"
  have h1: "\<not> isLoading (st ?c)" and h2: "\<not> isListening (st ?c)"
    by simp_all
  have h3: "1 < length (pending ?d) \<and> pending ?d ! 1 = AwaitStart"
    by simp
  from press_while_idle_starts_session [OF h1 h2, of "''denied''" 1 ?d] h3
  show ?thesis by (simp add: setters remove_nth_def)
qed

subsection \<open>The callbacks of the speech engine\<close>

text \<open>
  C8. The three listeners. \<^verbatim>\<open>onSpeechResults\<close> with a non-empty list writes its first
  candidate to \<open>recognizedText\<close> and nothing else, whatever the later candidates; with an
  empty or absent list it does nothing. \<^verbatim>\<open>onSpeechEnd\<close> sets \<open>isListening\<close> to false
  and logs a line. \<^verbatim>\<open>onSpeechError\<close> logs the error and sets \<open>isListening\<close> to false.
  Neither writes \<open>isLoading\<close>, \<open>recognizedText\<close> or \<open>aiReply\<close>, makes a call to the engine
  or the server, or touches a suspended task.
\<close>

theorem speech_callbacks_frame:
  "onSpeechResults (Some (x # xs)) c =
     c\<lparr>st := (st c)\<lparr>recognizedText := x\<rparr>, trace := trace c @ [SetRecognizedText x]\<rparr>
   \<and> onSpeechResults (Some []) c = c
   \<and> onSpeechResults None c = c
   \<and> onSpeechEnd c =
       c\<lparr>st := (st c)\<lparr>isListening := False\<rparr>,
         trace := trace c @ [SetIsListening False, ConsoleLog ''Speech listening has ended.'']\<rparr>
   \<and> onSpeechError err c =
       c\<lparr>st := (st c)\<lparr>isListening := False\<rparr>,
         trace := trace c @ [ConsoleError ''Speech Error:'' err, SetIsListening False]\<rparr>"
  by (simp add: setters handlers)

subsection \<open>The reply\<close>





text \<open>
  C5, as the claim states it, fails: the server answers \<^verbatim>\<open>{"reply": ""}\<close>, a payload
  that has a \<^verbatim>\<open>reply\<close> field whose text is empty, and \<open>aiReply\<close> is not that text but
  the fallback string, since \<^verbatim>\<open>data.reply || ...\<close> tests the value and not the
  presence of the field.
\<close>

theorem empty_reply_shows_fallback:
  "reply_of (JObj [(''reply'', JStr '''')]) = Inr (Some (JStr ''''))
   \<and> aiReply (st (run (initial LegacyRoot)
        [Press, VoiceSettled 0 None, SpeechResults (Some [''hi'']), Press, VoiceSettled 0 None,
         FetchSettled 0 (FetchResolved \<lparr>status = 200,
                                        json_result = Inr (JObj [(''reply'', JStr '''')])\<rparr>)]))
       = JStr ''Sorry, I couldn't get a response.''
   \<and> JStr ''Sorry, I couldn't get a response.'' \<noteq> JStr ''''"
  by (simp add: run_def initial_def fallback_reply_def setters handlers)

text \<open>
  C5, amended. When the request settles:
  \<^item> if the body parsed and \<^verbatim>\<open>data.reply\<close> is truthy, \<open>aiReply\<close> is that value,
    provided the call of the setter returns: always under a concurrent root, and
    under a legacy root when the value can be rendered, as every text can;
  \<^item> if the body parsed and \<^verbatim>\<open>data.reply\<close> is absent or falsy, \<open>aiReply\<close> is the
    fallback string;
  \<^item> if \<^verbatim>\<open>fetch\<close> rejected, the body did not parse, the body is \<^verbatim>\<open>null\<close> (reading
    \<^verbatim>\<open>reply\<close> of it throws), or the reply is truthy but cannot be rendered under a
    legacy root (the setter throws), \<open>aiReply\<close> is the connectivity message.
  Whatever the outcome the handler ends normally: it writes \<open>aiReply\<close> and \<open>isLoading\<close>
  only, the latter to false, and leaves the suspended tasks alone.
\<close>

theorem reply_settlement:
  "(json_result resp = Inr data \<and> reply_of data = Inr (Some v) \<and> truthy v
      \<and> (root_kind c = ConcurrentRoot \<or> renderable v) \<longrightarrow>
      aiReply (st (sendToServer_settled (FetchResolved resp) c)) = v)
   \<and> (json_result resp = Inr data \<and> reply_of data = Inr (Some (JStr s)) \<and> s \<noteq> [] \<longrightarrow>
      aiReply (st (sendToServer_settled (FetchResolved resp) c)) = JStr s)
   \<and> (json_result resp = Inr data \<and>
        (reply_of data = Inr None \<or> reply_of data = Inr (Some v) \<and> \<not> truthy v) \<longrightarrow>
      aiReply (st (sendToServer_settled (FetchResolved resp) c)) = JStr fallback_reply)
   \<and> (json_result resp = Inl e \<or> json_result resp = Inr JNull
        \<or> json_result resp = Inr data \<and> reply_of data = Inr (Some v) \<and> truthy v
            \<and> root_kind c = LegacyRoot \<and> \<not> renderable v \<longrightarrow>
      aiReply (st (sendToServer_settled (FetchResolved resp) c)) = JStr connectivity_error)
   \<and> aiReply (st (sendToServer_settled (FetchRejected e) c)) = JStr connectivity_error
   \<and> st (sendToServer_settled out c) =
       (st c)\<lparr>isLoading := False, aiReply := aiReply (st (sendToServer_settled out c))\<rparr>
   \<and> pending (sendToServer_settled out c) = pending c
   \<and> root_kind (sendToServer_settled out c) = root_kind c"
proof -
  have f: "renderable (JStr fallback_reply) \<and> truthy (JStr fallback_reply)"
    by (simp add: fallback_reply_def)
  have r: "root_kind c = ConcurrentRoot \<Longrightarrow> root_kind c \<noteq> LegacyRoot"
    by simp
  show ?thesis
    using f by (auto simp add: setters handlers dest: r split: sum.splits fetch_outcome.splits)
qed

theorem reply_settlement_witness:
  "aiReply (st (sendToServer_settled
       (FetchResolved \<lparr>status = 200,
                       json_result = Inr (JObj [(''reply'', JStr ''Let's talk about that.'')])\<rparr>)
       (initial LegacyRoot)))
     = JStr ''Let's talk about that.''
   \<and> aiReply (st (sendToServer_settled
       (FetchResolved \<lparr>status = 200, json_result = Inr (JObj [(''answer'', JStr ''x'')])\<rparr>)
       (initial LegacyRoot)))
     = JStr ''Sorry, I couldn't get a response.''
   \<and> aiReply (st (sendToServer_settled
       (FetchResolved \<lparr>status = 200, json_result = Inl ''SyntaxError''\<rparr>) (initial LegacyRoot)))
     = JStr ''I'm having trouble connecting to my brain. Please check the server.''
   \<and> aiReply (st (sendToServer_settled
       (FetchResolved \<lparr>status = 200,
                       json_result = Inr (JObj [(''reply'', JObj [(''text'', JStr ''hello'')])])\<rparr>)
       (initial LegacyRoot)))
     = JStr ''I'm having trouble connecting to my brain. Please check the server.''
   \<and> aiReply (st (sendToServer_settled
       (FetchResolved \<lparr>status = 200,
                       json_result = Inr (JObj [(''reply'', JObj [(''text'', JStr ''hello'')])])\<rparr>)
       (initial ConcurrentRoot)))
     = JObj [(''text'', JStr ''hello'')]"
  using reply_settlement
          [where resp = "\<lparr>status = 200,
                json_result = Inr (JObj [(''reply'', JStr ''Let's talk about that.'')])\<rparr>"
             and data = "JObj [(''reply'', JStr ''Let's talk about that.'')]"
             and v = "JStr ''Let's talk about that.''" and c = "initial LegacyRoot"]
        reply_settlement
          [where resp = "\<lparr>status = 200, json_result = Inr (JObj [(''answer'', JStr ''x'')])\<rparr>"
             and data = "JObj [(''answer'', JStr ''x'')]" and c = "initial LegacyRoot"]
        reply_settlement
          [where resp = "\<lparr>status = 200, json_result = Inl ''SyntaxError''\<rparr>"
             and c = "initial LegacyRoot" and e = "''SyntaxError''"]
        reply_settlement
          [where resp = "\<lparr>status = 200,
                json_result = Inr (JObj [(''reply'', JObj [(''text'', JStr ''hello'')])])\<rparr>"
             and data = "JObj [(''reply'', JObj [(''text'', JStr ''hello'')])]"
             and v = "JObj [(''text'', JStr ''hello'')]" and c = "initial LegacyRoot"]
        reply_settlement
          [where resp = "\<lparr>status = 200,
                json_result = Inr (JObj [(''reply'', JObj [(''text'', JStr ''hello'')])])\<rparr>"
             and data = "JObj [(''reply'', JObj [(''text'', JStr ''hello'')])]"
             and v = "JObj [(''text'', JStr ''hello'')]" and c = "initial ConcurrentRoot"]
  by (simp add: fallback_reply_def connectivity_error_def initial_def)

text \<open>
  C9. When the body parsed to an object that has a \<^verbatim>\<open>reply\<close> member: if the member is
  falsy (the empty string, \<^verbatim>\<open>null\<close>, \<^verbatim>\<open>false\<close>, zero), \<open>aiReply\<close> is the fallback
  string and not that member; so \<open>aiReply\<close> is the reply of the server only when that
  reply is truthy. A truthy reply that can be rendered, as every text that is not
  empty can, is what \<open>aiReply\<close> becomes.
\<close>

theorem falsy_reply_gives_fallback:
  assumes "json_result resp = Inr (JObj kvs)" and "map_of (rev kvs) ''reply'' = Some v"
  shows "(\<not> truthy v \<longrightarrow>
            aiReply (st (sendToServer_settled (FetchResolved resp) c)) = JStr fallback_reply
          \<and> aiReply (st (sendToServer_settled (FetchResolved resp) c)) \<noteq> v)
       \<and> (aiReply (st (sendToServer_settled (FetchResolved resp) c)) = v \<longrightarrow> truthy v)
       \<and> (truthy v \<and> renderable v \<longrightarrow>
            aiReply (st (sendToServer_settled (FetchResolved resp) c)) = v)"
proof -
  have f: "renderable (JStr fallback_reply) \<and> truthy (JStr fallback_reply)"
    by (simp add: fallback_reply_def)
  have a: "\<not> truthy v \<Longrightarrow>
           aiReply (st (sendToServer_settled (FetchResolved resp) c)) = JStr fallback_reply"
    using assms f by (simp add: setters handlers)
  have b: "truthy v \<Longrightarrow> renderable v \<Longrightarrow>
           aiReply (st (sendToServer_settled (FetchResolved resp) c)) = v"
    using assms by (simp add: setters handlers)
  have c: "\<not> truthy v \<Longrightarrow>
           aiReply (st (sendToServer_settled (FetchResolved resp) c)) \<noteq> v"
    using a f by metis
  from a b c show ?thesis by blast
qed

theorem falsy_reply_gives_fallback_witness:
  "aiReply (st (sendToServer_settled
      (FetchResolved \<lparr>status = 200, json_result = Inr (JObj [(''reply'', JStr '''')])\<rparr>)
      (initial LegacyRoot)))
     = JStr ''Sorry, I couldn't get a response.''
   \<and> aiReply (st (sendToServer_settled
      (FetchResolved \<lparr>status = 200, json_result = Inr (JObj [(''reply'', JNull)])\<rparr>)
      (initial LegacyRoot)))
     = JStr ''Sorry, I couldn't get a response.''
   \<and> aiReply (st (sendToServer_settled
      (FetchResolved \<lparr>status = 200, json_result = Inr (JObj [(''reply'', JBool False)])\<rparr>)
      (initial ConcurrentRoot)))
     = JStr ''Sorry, I couldn't get a response.''
   \<and> aiReply (st (sendToServer_settled
      (FetchResolved \<lparr>status = 200, json_result = Inr (JObj [(''reply'', JStr ''fine'')])\<rparr>)
      (initial LegacyRoot)))
     = JStr ''fine''"
proof -
  have a: "json_result \<lparr>status = 200, json_result = Inr (JObj [(''reply'', JStr '''')])\<rparr>
             = Inr (JObj [(''reply'', JStr '''')])"
    and b: "json_result \<lparr>status = 200, json_result = Inr (JObj [(''reply'', JNull)])\<rparr>
             = Inr (JObj [(''reply'', JNull)])"
    and c: "json_result \<lparr>status = 200, json_result = Inr (JObj [(''reply'', JBool False)])\<rparr>
             = Inr (JObj [(''reply'', JBool False)])"
    and d: "json_result \<lparr>status = 200, json_result = Inr (JObj [(''reply'', JStr ''fine'')])\<rparr>
             = Inr (JObj [(''reply'', JStr ''fine'')])"
    by simp_all
  have a': "map_of (rev [(''reply'', JStr '''')]) ''reply'' = Some (JStr '''')"
    and b': "map_of (rev [(''reply'', JNull)]) ''reply'' = Some JNull"
    and c': "map_of (rev [(''reply'', JBool False)]) ''reply'' = Some (JBool False)"
    and d': "map_of (rev [(''reply'', JStr ''fine'')]) ''reply'' = Some (JStr ''fine'')"
    by simp_all
  from falsy_reply_gives_fallback [OF a a', of "initial LegacyRoot"]
       falsy_reply_gives_fallback [OF b b', of "initial LegacyRoot"]
       falsy_reply_gives_fallback [OF c c', of "initial ConcurrentRoot"]
       falsy_reply_gives_fallback [OF d d', of "initial LegacyRoot"]
  show ?thesis by (simp add: fallback_reply_def)
qed







subsection \<open>Clearing the two texts\<close>




end
